theory Spec2Isabelle
  imports Main
begin

section \<open>Python values, strings and dictionaries\<close>

text \<open>
  Python strings are modelled as \<open>string\<close>, one \<open>char\<close> per code point (code points
  below 256).  \<open>str.strip()\<close> without argument removes the leading and the trailing
  characters for which \<open>str.isspace\<close> holds; below 256 these are the code points
  9 to 13, 28 to 32, 133 and 160.
\<close>

definition isspace :: "char \<Rightarrow> bool" where
  "isspace c =
     (let n = (of_char c :: nat)
      in (9 \<le> n \<and> n \<le> 13) \<or> (28 \<le> n \<and> n \<le> 32) \<or> n = 133 \<or> n = 160)"

definition strip :: "string \<Rightarrow> string" where
  "strip s = rev (dropWhile isspace (rev (dropWhile isspace s)))"

text \<open>\<open>d.get(k, default)\<close> on a dictionary (also on the form multi-dict of a request).\<close>

definition dict_get :: "('k \<rightharpoonup> 'v) \<Rightarrow> 'k \<Rightarrow> 'v \<Rightarrow> 'v" where
  "dict_get d k dflt = (case d k of None \<Rightarrow> dflt | Some v \<Rightarrow> v)"

text \<open>The values stored in the configuration dictionary and in the session.\<close>

datatype pyval = PNone | PBool bool | PInt int | PStr string | PList "pyval list"

fun truthy :: "pyval \<Rightarrow> bool" where
  "truthy PNone = False"
| "truthy (PBool b) = b"
| "truthy (PInt n) = (n \<noteq> 0)"
| "truthy (PStr s) = (s \<noteq> [])"
| "truthy (PList xs) = (xs \<noteq> [])"

type_synonym session = "string \<rightharpoonup> pyval"

type_synonym config = "string \<rightharpoonup> pyval"

section \<open>Collaborators of the route handlers\<close>

text \<open>
  Modelled from the spec: the User dataclass of auth/models.py, which is not among the
  sources.  The fields are those of the data model (section 3 of the specification);
  \<open>uid\<close> is the field \<open>id\<close>.
\<close>

record user =
  uid :: int
  username :: string
  email :: string
  password :: string
  role :: string
  active :: bool
  created_at :: string
  last_login :: string

text \<open>
  Modelled from the spec: the interface of UserRepository (auth/repository.py is not
  among the sources).  The repository works on a storage state \<open>'db\<close>.  The two lookups
  are queries; \<open>authenticate\<close> records the login time and \<open>create\<close> inserts a row, so
  both return the new storage state.  A result \<open>None\<close> is Python's \<open>None\<close>; a
  \<open>User\<close> object is truthy.
\<close>

record 'db user_repo =
  get_by_username :: "'db \<Rightarrow> string \<Rightarrow> user option"
  get_by_id :: "'db \<Rightarrow> int \<Rightarrow> user option"
  authenticate :: "'db \<Rightarrow> string \<Rightarrow> string \<Rightarrow> 'db \<times> user option"
  create :: "'db \<Rightarrow> string \<Rightarrow> string \<Rightarrow> string \<Rightarrow> 'db \<times> user option"

text \<open>The part of the AuthManager that the routes use: \<open>self.auth.user_repo\<close> and
  \<open>self.auth.config\<close>.\<close>

record 'db auth_manager =
  user_repo :: "'db user_repo"
  config :: config

text \<open>The request: query parameters, the submitted form (fields of text inputs), the
  ASGI scope and the requested path.\<close>

datatype scope_value = ScopeUser user | ScopeStr string

record request =
  query_params :: "string \<rightharpoonup> string"
  form :: "string \<rightharpoonup> string"
  scope :: "string \<rightharpoonup> scope_value"
  url_path :: string

text \<open>
  The form builders of auth/forms.py are not among the sources: each is a constructor
  that records the arguments it is called with.  A page is the pair of a title and its
  content.
\<close>

datatype ft =
    Container ft
  | create_login_form "string option" string
  | create_register_form "string option" string
  | create_forgot_password_form "string option" "string option" string
  | create_profile_form scope_value "string option" "string option" string

datatype response =
    RedirectResponse string int
  | Page string ft

datatype py_error = KeyError string

section \<open>auth/routes.py: the handlers\<close>

definition login_page :: "string \<Rightarrow> request \<Rightarrow> response" where
  "login_page prefix req =
     (let error = query_params req ''error''
      in Page ''Login'' (Container (create_login_form error (prefix @ ''/login''))))"

definition login_submit ::
  "'db auth_manager \<Rightarrow> string \<Rightarrow> request \<Rightarrow> 'db \<times> session \<Rightarrow> ('db \<times> session) \<times> response" where
  "login_submit auth prefix req st =
     (let (db, sess) = st;
          frm = form req;
          uname = strip (dict_get frm ''username'' '''');
          pw = dict_get frm ''password'' '''';
          (db', usr) = authenticate (user_repo auth) db uname pw
      in case usr of
           Some u \<Rightarrow>
             (let sess1 = sess(''auth'' \<mapsto> PStr (username u));
                  sess2 = sess1(''user_id'' \<mapsto> PInt (uid u));
                  sess3 = sess2(''role'' \<mapsto> PStr (role u));
                  next_url = dict_get frm ''next'' ''/''
              in ((db', sess3), RedirectResponse next_url 303))
         | None \<Rightarrow> ((db', sess), RedirectResponse (prefix @ ''/login?error=invalid'') 303))"

definition logout :: "string \<Rightarrow> session \<Rightarrow> session \<times> response" where
  "logout prefix sess = (Map.empty, RedirectResponse (prefix @ ''/login'') 303)"

definition register_page :: "string \<Rightarrow> request \<Rightarrow> response" where
  "register_page prefix req =
     (let error = query_params req ''error''
      in Page ''Register'' (Container (create_register_form error (prefix @ ''/register''))))"

definition register_submit ::
  "'db auth_manager \<Rightarrow> string \<Rightarrow> request \<Rightarrow> 'db \<times> session \<Rightarrow> ('db \<times> session) \<times> response" where
  "register_submit auth prefix req st =
     (let (db, sess) = st;
          frm = form req;
          uname = strip (dict_get frm ''username'' '''');
          mail = strip (dict_get frm ''email'' '''');
          pw = dict_get frm ''password'' '''';
          confirm = dict_get frm ''confirm_password'' ''''
      in if pw \<noteq> confirm then
           ((db, sess), RedirectResponse (prefix @ ''/register?error=password_mismatch'') 303)
         else if get_by_username (user_repo auth) db uname \<noteq> None then
           ((db, sess), RedirectResponse (prefix @ ''/register?error=username_taken'') 303)
         else
           (let (db', usr) = create (user_repo auth) db uname mail pw
            in case usr of
                 Some u \<Rightarrow>
                   (let sess1 = sess(''auth'' \<mapsto> PStr (username u));
                        sess2 = sess1(''user_id'' \<mapsto> PInt (uid u));
                        sess3 = sess2(''role'' \<mapsto> PStr (role u))
                    in ((db', sess3), RedirectResponse ''/'' 303))
               | None \<Rightarrow>
                   ((db', sess), RedirectResponse (prefix @ ''/register?error=creation_failed'') 303)))"

definition forgot_page :: "string \<Rightarrow> request \<Rightarrow> response" where
  "forgot_page prefix req =
     (let error = query_params req ''error'';
          success = query_params req ''success''
      in Page ''Forgot Password'' (create_forgot_password_form error success (prefix @ ''/forgot'')))"

text \<open>\<open>req.scope['user']\<close> raises \<open>KeyError\<close> when the key is absent.\<close>

definition profile_page :: "string \<Rightarrow> request \<Rightarrow> py_error + response" where
  "profile_page prefix req =
     (case scope req ''user'' of
        None \<Rightarrow> Inl (KeyError ''user'')
      | Some usr \<Rightarrow>
          (let success = query_params req ''success'';
               error = query_params req ''error''
           in Inr (Page ''Profile'' (create_profile_form usr success error (prefix @ ''/profile'')))))"

section \<open>auth/routes.py: route registration\<close>

text \<open>
  \<open>rt = app.route\<close> adds a route (path, methods, handler) to the application;
  \<open>self.routes\<close> is the dictionary of the handlers by name.  The methods are \<open>None\<close>
  where the decorator is called without them.
\<close>

datatype handler =
    Login_page | Login_submit | Logout | Profile_page
  | Register_page | Register_submit | Forgot_page

record route =
  route_path :: string
  route_methods :: "string list option"
  route_handler :: handler

type_synonym routes_state = "route list \<times> (string \<rightharpoonup> handler)"

definition rt :: "string \<Rightarrow> string list option \<Rightarrow> handler \<Rightarrow> route list \<Rightarrow> route list" where
  "rt p ms h app = app @ [\<lparr>route_path = p, route_methods = ms, route_handler = h\<rparr>]"

definition register_login_routes :: "string \<Rightarrow> routes_state \<Rightarrow> routes_state" where
  "register_login_routes prefix st =
     (let (app, routes) = st;
          app1 = rt (prefix @ ''/login'') (Some [''GET'']) Login_page app;
          routes1 = routes(''login_page'' \<mapsto> Login_page);
          app2 = rt (prefix @ ''/login'') (Some [''POST'']) Login_submit app1;
          routes2 = routes1(''login_submit'' \<mapsto> Login_submit)
      in (app2, routes2))"

definition register_logout_route :: "string \<Rightarrow> routes_state \<Rightarrow> routes_state" where
  "register_logout_route prefix st =
     (let (app, routes) = st;
          app1 = rt (prefix @ ''/logout'') None Logout app
      in (app1, routes(''logout'' \<mapsto> Logout)))"

definition register_registration_routes ::
  "'db auth_manager \<Rightarrow> string \<Rightarrow> routes_state \<Rightarrow> routes_state" where
  "register_registration_routes auth prefix st =
     (if truthy (dict_get (config auth) ''allow_registration'' (PBool False)) then
        (let (app, routes) = st;
             app1 = rt (prefix @ ''/register'') (Some [''GET'']) Register_page app;
             app2 = rt (prefix @ ''/register'') (Some [''POST'']) Register_submit app1;
             routes1 = routes(''register_page'' \<mapsto> Register_page);
             routes2 = routes1(''register_submit'' \<mapsto> Register_submit)
         in (app2, routes2))
      else st)"

definition register_password_reset_routes ::
  "'db auth_manager \<Rightarrow> string \<Rightarrow> routes_state \<Rightarrow> routes_state" where
  "register_password_reset_routes auth prefix st =
     (if truthy (dict_get (config auth) ''allow_password_reset'' (PBool False)) then
        (let (app, routes) = st;
             app1 = rt (prefix @ ''/forgot'') (Some [''GET'']) Forgot_page app
         in (app1, routes(''forgot_password'' \<mapsto> Forgot_page)))
      else st)"

definition register_profile_route :: "string \<Rightarrow> routes_state \<Rightarrow> routes_state" where
  "register_profile_route prefix st =
     (let (app, routes) = st
      in (rt (prefix @ ''/profile'') (Some [''GET'']) Profile_page app, routes))"

text \<open>\<open>register_all\<close> returns \<open>self.routes\<close>, the second component of the state.\<close>

definition register_all :: "'db auth_manager \<Rightarrow> string \<Rightarrow> routes_state \<Rightarrow> routes_state" where
  "register_all auth prefix st =
     (let st1 = register_login_routes prefix st;
          st2 = register_logout_route prefix st1;
          st3 = register_profile_route prefix st2;
          st4 = (if truthy (dict_get (config auth) ''allow_registration'' PNone)
                 then register_registration_routes auth prefix st3 else st3);
          st5 = (if truthy (dict_get (config auth) ''allow_password_reset'' PNone)
                 then register_password_reset_routes auth prefix st4 else st4)
      in st5)"

section \<open>auth/database.py\<close>

text \<open>
  The model classes \<open>User\<close> and \<open>Session\<close> of auth/models.py are parameters: a class
  has a name, its fields and the attribute \<open>pk\<close>.  The storage maps the name of a table
  to the table; a table reference (\<open>self.users\<close>, \<open>self.sessions\<close>) is the name of the
  table in the storage.
\<close>

record model_class =
  cls_name :: string
  cls_fields :: "string list"
  cls_pk :: string

record table =
  tbl_columns :: "string list"
  tbl_pk :: string
  tbl_rows :: "(string \<rightharpoonup> pyval) list"

type_synonym storage = "string \<rightharpoonup> table"

text \<open>
  \<open>db.create(cls, pk)\<close> of fastlite, as the comment in the source describes it: it
  creates the table if it does not exist, otherwise it returns the current table.
\<close>

definition db_create :: "storage \<Rightarrow> model_class \<Rightarrow> string \<Rightarrow> storage \<times> string" where
  "db_create store cls pk =
     (case store (cls_name cls) of
        Some t \<Rightarrow> (store, cls_name cls)
      | None \<Rightarrow>
          (store(cls_name cls \<mapsto> \<lparr>tbl_columns = cls_fields cls, tbl_pk = pk, tbl_rows = []\<rparr>),
           cls_name cls))"

record auth_database =
  db :: storage
  db_path :: string
  users :: "string option"
  sessions :: "string option"
  audit_log :: "string option"

text \<open>\<open>db.create(Session)\<close> is called without \<open>pk\<close>, whose default is \<open>'id'\<close>.\<close>

definition initialize_auth_tables ::
  "model_class \<Rightarrow> model_class \<Rightarrow> auth_database \<Rightarrow> auth_database \<times> storage" where
  "initialize_auth_tables User Session self =
     (let (store1, t1) = db_create (db self) User (cls_pk User);
          self1 = self\<lparr>db := store1, users := Some t1\<rparr>;
          (store2, t2) = db_create (db self1) Session ''id'';
          self2 = self1\<lparr>db := store2, sessions := Some t2\<rparr>
      in (self2, db self2))"

definition get_db :: "auth_database \<Rightarrow> storage" where
  "get_db self = db self"

section \<open>The user repository and the access gate of the specification\<close>

text \<open>
  Modelled from the spec: UserRepository (section 4.2), whose source auth/repository.py
  is missing, over a storage state that is the list of the user rows.  Hashing and
  verification belong to the credential model (section 4.1) and are parameters, as is
  the clock.
\<close>

record credential_model =
  hash_password :: "string \<Rightarrow> string"
  verify_password :: "string \<Rightarrow> string \<Rightarrow> bool"
  is_hashed :: "string \<Rightarrow> bool"

definition repo_get_by_username :: "user list \<Rightarrow> string \<Rightarrow> user option" where
  "repo_get_by_username rows name = find (\<lambda>u. username u = name) rows"

definition repo_get_by_id :: "user list \<Rightarrow> int \<Rightarrow> user option" where
  "repo_get_by_id rows i = find (\<lambda>u. uid u = i) rows"

definition next_id :: "user list \<Rightarrow> int" where
  "next_id rows = fold max (map uid rows) 0 + 1"

definition repo_create ::
  "credential_model \<Rightarrow> string \<Rightarrow> user list \<Rightarrow> string \<Rightarrow> string \<Rightarrow> string
     \<Rightarrow> user list \<times> user option" where
  "repo_create cm now rows name mail pw =
     (if repo_get_by_username rows name \<noteq> None then (rows, None)
      else
        (let u = \<lparr>uid = next_id rows, username = name, email = mail,
                  password = (if is_hashed cm pw then pw else hash_password cm pw),
                  role = ''user'', active = True, created_at = now, last_login = now\<rparr>
         in (rows @ [u], Some u)))"

definition repo_authenticate ::
  "credential_model \<Rightarrow> string \<Rightarrow> user list \<Rightarrow> string \<Rightarrow> string \<Rightarrow> user list \<times> user option" where
  "repo_authenticate cm now rows name pw =
     (case repo_get_by_username rows name of
        None \<Rightarrow> (rows, None)
      | Some u \<Rightarrow>
          (if active u \<and> verify_password cm pw (password u) then
             (let u' = u\<lparr>last_login := now\<rparr>
              in (map (\<lambda>x. if uid x = uid u then u' else x) rows, Some u'))
           else (rows, None)))"

definition spec_repo :: "credential_model \<Rightarrow> string \<Rightarrow> (user list) user_repo" where
  "spec_repo cm now =
     \<lparr>get_by_username = repo_get_by_username,
      get_by_id = repo_get_by_id,
      authenticate = repo_authenticate cm now,
      create = repo_create cm now\<rparr>"

text \<open>
  Modelled from the spec: the Access Gate (section 4.3), whose source auth/middleware.py
  is missing.  A path is public when an entry of the public-path list equals it or is a
  prefix of it.  The principal is resolved from the user id that the login stores in the
  session; a stale session is cleared; the denial is a redirect (303) to the login path
  with the requested path as \<open>next\<close> parameter.
\<close>

datatype gate_state = PUBLIC | UNAUTHENTICATED | AUTHENTICATED

definition is_public_path :: "string list \<Rightarrow> string \<Rightarrow> bool" where
  "is_public_path public p = list_ex (\<lambda>q. p = q \<or> take (length q) p = q) public"

definition access_gate ::
  "'db user_repo \<Rightarrow> string \<Rightarrow> string list \<Rightarrow> 'db \<Rightarrow> request \<Rightarrow> session
     \<Rightarrow> gate_state \<times> session \<times> request \<times> response option" where
  "access_gate repo login_path public store req sess =
     (if is_public_path public (url_path req) then (PUBLIC, sess, req, None)
      else
        (let denial = RedirectResponse (login_path @ ''?next='' @ url_path req) 303
         in case sess ''user_id'' of
              Some (PInt i) \<Rightarrow>
                (case get_by_id repo store i of
                   Some u \<Rightarrow>
                     (if active u then
                        (AUTHENTICATED, sess,
                         req\<lparr>scope := (scope req)(''user'' \<mapsto> ScopeUser u)\<rparr>, None)
                      else (UNAUTHENTICATED, Map.empty, req, Some denial))
                 | None \<Rightarrow> (UNAUTHENTICATED, Map.empty, req, Some denial))
            | _ \<Rightarrow> (UNAUTHENTICATED, sess, req, Some denial)))"

section \<open>Example data\<close>

text \<open>
  A repository that records the arguments of the calls that change the storage: its
  storage state is the list of the calls made so far.
\<close>

datatype repo_call = Call_authenticate string string | Call_create string string string

definition recording_repo :: "(repo_call list) user_repo" where
  "recording_repo =
     \<lparr>get_by_username = (\<lambda>calls name. None),
      get_by_id = (\<lambda>calls i. None),
      authenticate = (\<lambda>calls name pw. (calls @ [Call_authenticate name pw], None)),
      create = (\<lambda>calls name mail pw. (calls @ [Call_create name mail pw], None))\<rparr>"

text \<open>
  An instance of the credential model for the examples: a tag stands in for the salted
  hash.  The user is the one of the end-to-end scenario of the specification, the
  configuration the one of the test application.
\<close>

definition example_cm :: credential_model where
  "example_cm =
     \<lparr>hash_password = (\<lambda>p. ''$2b$'' @ p),
      verify_password = (\<lambda>p h. h = ''$2b$'' @ p),
      is_hashed = (\<lambda>s. take 4 s = ''$2b$'')\<rparr>"

definition alice :: user where
  "alice =
     \<lparr>uid = 1, username = ''alice'', email = ''alice@example.org'',
      password = ''$2b$secret123'', role = ''user'', active = True,
      created_at = ''2025-01-01T00:00:00'', last_login = ''2025-01-01T00:00:00''\<rparr>"

definition bob :: user where
  "bob =
     \<lparr>uid = 2, username = ''bob'', email = ''bob@example.org'',
      password = ''$2b$hunter22'', role = ''user'', active = True,
      created_at = ''2025-06-01T12:00:00'', last_login = ''2025-06-01T12:00:00''\<rparr>"

definition alice_logged_in :: user where
  "alice_logged_in = alice\<lparr>last_login := ''2025-06-01T12:00:00''\<rparr>"

definition example_config :: config where
  "example_config =
     [''login_path'' \<mapsto> PStr ''/auth/login'',
      ''public_paths'' \<mapsto> PList [PStr ''/about'', PStr ''/contact''],
      ''allow_registration'' \<mapsto> PBool True,
      ''allow_password_reset'' \<mapsto> PBool False]"

definition example_auth :: "(user list) auth_manager" where
  "example_auth =
     \<lparr>user_repo = spec_repo example_cm ''2025-06-01T12:00:00'', config = example_config\<rparr>"

definition example_request :: "(string \<rightharpoonup> string) \<Rightarrow> request" where
  "example_request frm =
     \<lparr>query_params = Map.empty, form = frm, scope = Map.empty, url_path = ''/auth/profile''\<rparr>"

text \<open>Submitted forms: logins and registrations for the examples.\<close>

definition login_form :: "string \<Rightarrow> string \<Rightarrow> string \<rightharpoonup> string" where
  "login_form name pw = [''username'' \<mapsto> name, ''password'' \<mapsto> pw]"

definition register_form :: "string \<Rightarrow> string \<Rightarrow> string \<Rightarrow> string \<Rightarrow> string \<rightharpoonup> string" where
  "register_form name mail pw confirm =
     [''username'' \<mapsto> name, ''email'' \<mapsto> mail, ''password'' \<mapsto> pw,
      ''confirm_password'' \<mapsto> confirm]"

definition alice_session :: session where
  "alice_session = [''auth'' \<mapsto> PStr ''alice'', ''user_id'' \<mapsto> PInt 1, ''role'' \<mapsto> PStr ''user'']"

text \<open>The model classes as the data model of the specification describes them.\<close>

definition User_class :: model_class where
  "User_class =
     \<lparr>cls_name = ''user'',
      cls_fields = [''id'', ''username'', ''email'', ''password'', ''role'', ''active'',
                    ''created_at'', ''last_login''],
      cls_pk = ''id''\<rparr>"

definition Session_class :: model_class where
  "Session_class =
     \<lparr>cls_name = ''session'',
      cls_fields = [''token'', ''user_id'', ''created_at'', ''expires_at''],
      cls_pk = ''token''\<rparr>"

definition fresh_database :: auth_database where
  "fresh_database =
     \<lparr>db = Map.empty, db_path = ''data/app.db'', users = None, sessions = None,
      audit_log = None\<rparr>"

section \<open>Auxiliary facts\<close>

lemma strip_decomp:
  "s = takeWhile isspace s @ strip s @ rev (takeWhile isspace (rev (dropWhile isspace s)))"
proof -
  let ?t = "dropWhile isspace s"
  have "rev (takeWhile isspace (rev ?t) @ dropWhile isspace (rev ?t)) =
        rev (dropWhile isspace (rev ?t)) @ rev (takeWhile isspace (rev ?t))"
    by (rule rev_append)
  then have "rev (rev ?t) = rev (dropWhile isspace (rev ?t)) @ rev (takeWhile isspace (rev ?t))"
    by (simp only: takeWhile_dropWhile_id)
  then have "?t = strip s @ rev (takeWhile isspace (rev ?t))"
    by (simp only: rev_rev_ident strip_def)
  moreover have "s = takeWhile isspace s @ ?t"
    by simp
  ultimately show ?thesis
    by simp
qed

lemma strip_surrounding:
  "\<exists>l r. s = l @ strip s @ r \<and> list_all isspace l \<and> list_all isspace r"
proof -
  have "list_all isspace (takeWhile isspace s)"
    by (simp add: list_all_iff) (meson set_takeWhileD)
  moreover have "list_all isspace (rev (takeWhile isspace (rev (dropWhile isspace s))))"
    by (simp add: list_all_iff) (meson set_takeWhileD)
  ultimately show ?thesis
    using strip_decomp [of s] by blast
qed

lemma strip_last: "strip s \<noteq> [] \<Longrightarrow> \<not> isspace (last (strip s))"
  by (simp add: strip_def last_rev hd_dropWhile)

lemma strip_hd:
  assumes "strip s \<noteq> []"
  shows "\<not> isspace (hd (strip s))"
proof -
  let ?t = "dropWhile isspace s"
  have t: "?t = strip s @ rev (takeWhile isspace (rev ?t))"
    using strip_decomp [of s] by (metis same_append_eq takeWhile_dropWhile_id)
  with assms have "?t \<noteq> []" by (metis Nil_is_append_conv)
  then have "\<not> isspace (hd ?t)" by (rule hd_dropWhile)
  moreover from t assms have "hd ?t = hd (strip s)" by (metis hd_append2)
  ultimately show ?thesis by simp
qed

lemma strip_examples:
  "strip '' alice '' = ''alice''" "strip ''alice'' = ''alice''"
  "strip ''nouser'' = ''nouser''" "strip '' bob'' = ''bob''"
  "strip ''bob@example.org '' = ''bob@example.org''" "strip [] = []"
  by (simp_all add: strip_def isspace_def)

lemmas example_defs =
  example_auth_def example_request_def spec_repo_def repo_authenticate_def repo_create_def
  repo_get_by_username_def repo_get_by_id_def alice_def alice_logged_in_def bob_def
  example_cm_def dict_get_def login_form_def register_form_def alice_session_def
  next_id_def Let_def

lemmas register_defs =
  register_all_def register_login_routes_def register_logout_route_def
  register_profile_route_def register_registration_routes_def
  register_password_reset_routes_def rt_def

section \<open>Registration with a username that is taken (C1)\<close>

text \<open>
  C1 as the specification states it fails: when the password and its confirmation
  differ, \<open>register_submit\<close> answers with the password-mismatch error before it looks
  the username up, also when the username names an existing user.
\<close>

theorem register_existing_username_counterexample:
  "get_by_username (user_repo example_auth) [alice]
     (strip (dict_get (form (example_request (register_form ''alice'' [] ''secret1'' ''secret2'')))
        ''username'' [])) = Some alice \<and>
   register_submit example_auth ''/auth''
     (example_request (register_form ''alice'' [] ''secret1'' ''secret2'')) ([alice], Map.empty) =
     (([alice], Map.empty), RedirectResponse ''/auth/register?error=password_mismatch'' 303) \<and>
   snd (register_submit example_auth ''/auth''
     (example_request (register_form ''alice'' [] ''secret1'' ''secret2'')) ([alice], Map.empty)) \<noteq>
     RedirectResponse ''/auth/register?error=username_taken'' 303"
  by (simp add: register_submit_def example_defs strip_examples)

text \<open>
  C1, amended: for every registration submission whose username, stripped of the
  surrounding whitespace, names an existing user, \<open>register_submit\<close> fails the
  creation: it redirects (303) to the register page, with the password-mismatch error
  when the password and its confirmation differ and with the username-taken error
  otherwise; the storage is unchanged (no user record is created, the existing record is
  not mutated) and so is the session.
\<close>

theorem register_existing_username:
  assumes "get_by_username (user_repo auth) store
             (strip (dict_get (form req) ''username'' [])) = Some u"
  shows "register_submit auth prefix req (store, sess) =
           ((store, sess),
            RedirectResponse
              (prefix @ (if dict_get (form req) ''password'' [] \<noteq>
                            dict_get (form req) ''confirm_password'' []
                         then ''/register?error=password_mismatch''
                         else ''/register?error=username_taken'')) 303)"
  using assms by (simp add: register_submit_def Let_def)

theorem register_existing_username_witness:
  "get_by_username (user_repo example_auth) [alice]
     (strip (dict_get (form (example_request (register_form '' alice '' [] ''pw'' ''pw'')))
        ''username'' [])) = Some alice \<and>
   register_submit example_auth ''/auth''
     (example_request (register_form '' alice '' [] ''pw'' ''pw'')) ([alice], alice_session) =
     (([alice], alice_session), RedirectResponse ''/auth/register?error=username_taken'' 303)"
  using register_existing_username [of example_auth "[alice]"
          "example_request (register_form '' alice '' [] ''pw'' ''pw'')" alice "''/auth''"
          alice_session]
  by (simp add: example_defs strip_examples)

section \<open>Login (C2, C3)\<close>

text \<open>
  C2: when \<open>authenticate\<close> returns \<open>None\<close> for the stripped username and the password
  of the form, \<open>login_submit\<close> leaves the session as it is and redirects to the login
  path with \<open>error=invalid\<close>; the response depends on the prefix only, so it is the same
  whatever the reason of the failure.
\<close>

theorem login_failure_generic:
  assumes "snd (authenticate (user_repo auth) store
                  (strip (dict_get (form req) ''username'' []))
                  (dict_get (form req) ''password'' [])) = None"
  shows "snd (fst (login_submit auth prefix req (store, sess))) = sess \<and>
         snd (login_submit auth prefix req (store, sess)) =
           RedirectResponse (prefix @ ''/login?error=invalid'') 303"
  using assms by (auto simp add: login_submit_def Let_def split: prod.splits)

theorem login_failure_generic_witness:
  "snd (authenticate (user_repo example_auth) [alice]
          (strip (dict_get (form (example_request (login_form ''alice'' ''wrong''))) ''username'' []))
          (dict_get (form (example_request (login_form ''alice'' ''wrong''))) ''password'' [])) = None \<and>
   snd (authenticate (user_repo example_auth) [alice]
          (strip (dict_get (form (example_request (login_form ''nouser'' ''x''))) ''username'' []))
          (dict_get (form (example_request (login_form ''nouser'' ''x''))) ''password'' [])) = None \<and>
   snd (fst (login_submit example_auth ''/auth''
          (example_request (login_form ''alice'' ''wrong'')) ([alice], alice_session))) =
     alice_session \<and>
   snd (login_submit example_auth ''/auth''
          (example_request (login_form ''alice'' ''wrong'')) ([alice], alice_session)) =
     RedirectResponse ''/auth/login?error=invalid'' 303 \<and>
   snd (login_submit example_auth ''/auth''
          (example_request (login_form ''nouser'' ''x'')) ([alice], alice_session)) =
     RedirectResponse ''/auth/login?error=invalid'' 303"
  using login_failure_generic [of example_auth "[alice]"
          "example_request (login_form ''alice'' ''wrong'')" "''/auth''" alice_session]
        login_failure_generic [of example_auth "[alice]"
          "example_request (login_form ''nouser'' ''x'')" "''/auth''" alice_session]
  by (simp add: example_defs strip_examples)

text \<open>
  C3: when \<open>authenticate\<close> returns a user, \<open>login_submit\<close> sets the session keys
  \<open>auth\<close>, \<open>user_id\<close> and \<open>role\<close> to the username, the id and the role of that user,
  leaves every other key of the session as it is, and redirects (303) to the value of the
  form field \<open>next\<close>, or to \<open>/\<close> when the form has no such field.
\<close>

theorem login_success_session_and_redirect:
  assumes "authenticate (user_repo auth) store
             (strip (dict_get (form req) ''username'' []))
             (dict_get (form req) ''password'' []) = (store', Some u)"
  shows "login_submit auth prefix req (store, sess) =
           ((store', sess(''auth'' \<mapsto> PStr (username u), ''user_id'' \<mapsto> PInt (uid u),
                          ''role'' \<mapsto> PStr (role u))),
            RedirectResponse (case form req ''next'' of None \<Rightarrow> ''/'' | Some url \<Rightarrow> url) 303)"
  using assms by (simp add: login_submit_def Let_def dict_get_def)

theorem login_success_session_and_redirect_witness:
  "authenticate (user_repo example_auth) [alice]
     (strip (dict_get (form (example_request (login_form '' alice '' ''secret123''))) ''username'' []))
     (dict_get (form (example_request (login_form '' alice '' ''secret123''))) ''password'' []) =
     ([alice_logged_in], Some alice_logged_in) \<and>
   login_submit example_auth ''/auth'' (example_request (login_form '' alice '' ''secret123''))
     ([alice], Map.empty) =
     (([alice_logged_in], alice_session), RedirectResponse ''/'' 303) \<and>
   snd (login_submit example_auth ''/auth''
          (example_request ((login_form '' alice '' ''secret123'')(''next'' \<mapsto> ''/reports'')))
          ([alice], Map.empty)) = RedirectResponse ''/reports'' 303"
  using login_success_session_and_redirect [of example_auth "[alice]"
          "example_request (login_form '' alice '' ''secret123'')"
          "[alice_logged_in]" alice_logged_in "''/auth''" Map.empty]
    login_success_session_and_redirect [of example_auth "[alice]"
          "example_request ((login_form '' alice '' ''secret123'')(''next'' \<mapsto> ''/reports''))"
          "[alice_logged_in]" alice_logged_in "''/auth''" Map.empty]
  by (simp add: example_defs strip_examples)

section \<open>Route registration (C4)\<close>

text \<open>
  C4: \<open>register_all\<close> adds to the application the login, logout and profile routes,
  then the two registration routes exactly when the configuration value
  \<open>allow_registration\<close> is truthy, then the password-reset route exactly when
  \<open>allow_password_reset\<close> is truthy; the same holds for the entries of the dictionary
  of the handlers.  The password-reset surface is the single GET route \<open>/forgot\<close>,
  whose handler only renders the form: there is no route that accepts a submission.
\<close>

theorem register_all_optional_routes:
  "fst (register_all auth prefix (app, routes)) =
     app @
     [\<lparr>route_path = prefix @ ''/login'', route_methods = Some [''GET''],
        route_handler = Login_page\<rparr>,
      \<lparr>route_path = prefix @ ''/login'', route_methods = Some [''POST''],
        route_handler = Login_submit\<rparr>,
      \<lparr>route_path = prefix @ ''/logout'', route_methods = None, route_handler = Logout\<rparr>,
      \<lparr>route_path = prefix @ ''/profile'', route_methods = Some [''GET''],
        route_handler = Profile_page\<rparr>] @
     (if truthy (dict_get (config auth) ''allow_registration'' PNone) then
        [\<lparr>route_path = prefix @ ''/register'', route_methods = Some [''GET''],
           route_handler = Register_page\<rparr>,
         \<lparr>route_path = prefix @ ''/register'', route_methods = Some [''POST''],
           route_handler = Register_submit\<rparr>]
      else []) @
     (if truthy (dict_get (config auth) ''allow_password_reset'' PNone) then
        [\<lparr>route_path = prefix @ ''/forgot'', route_methods = Some [''GET''],
           route_handler = Forgot_page\<rparr>]
      else []) \<and>
   snd (register_all auth prefix (app, routes)) ''register_page'' =
     (if truthy (dict_get (config auth) ''allow_registration'' PNone) then Some Register_page
      else routes ''register_page'') \<and>
   snd (register_all auth prefix (app, routes)) ''register_submit'' =
     (if truthy (dict_get (config auth) ''allow_registration'' PNone) then Some Register_submit
      else routes ''register_submit'') \<and>
   snd (register_all auth prefix (app, routes)) ''forgot_password'' =
     (if truthy (dict_get (config auth) ''allow_password_reset'' PNone) then Some Forgot_page
      else routes ''forgot_password'') \<and>
   forgot_page prefix req =
     Page ''Forgot Password''
       (create_forgot_password_form (query_params req ''error'') (query_params req ''success'')
          (prefix @ ''/forgot''))"
  by (cases "config auth ''allow_registration''"; cases "config auth ''allow_password_reset''")
     (simp_all add: register_defs dict_get_def forgot_page_def)

theorem register_all_optional_routes_witness:
  "truthy (dict_get (config example_auth) ''allow_registration'' PNone) \<and>
   \<not> truthy (dict_get (config example_auth) ''allow_password_reset'' PNone) \<and>
   map route_path (fst (register_all example_auth ''/auth'' ([], Map.empty))) =
     [''/auth/login'', ''/auth/login'', ''/auth/logout'', ''/auth/profile'', ''/auth/register'',
      ''/auth/register''] \<and>
   snd (register_all example_auth ''/auth'' ([], Map.empty)) ''register_submit'' =
     Some Register_submit \<and>
   snd (register_all example_auth ''/auth'' ([], Map.empty)) ''forgot_password'' = None"
  using register_all_optional_routes [of example_auth "''/auth''" "[]" Map.empty
          "example_request Map.empty"]
  by (simp add: example_auth_def example_config_def dict_get_def)

section \<open>The principal in the request scope (C5)\<close>

text \<open>
  C5: when the access gate classifies a request as AUTHENTICATED, the user that the
  repository resolved from the session is stored in the scope of the request under the
  key \<open>user\<close>, and \<open>profile_page\<close>, which has the request as its only source of
  data and no access to the repository, renders the form for that user.
\<close>

theorem authenticated_user_in_scope:
  assumes "access_gate repo login_path public store req sess = (AUTHENTICATED, sess', req', resp)"
  shows "\<exists>i u. sess ''user_id'' = Some (PInt i) \<and> get_by_id repo store i = Some u \<and>
           scope req' ''user'' = Some (ScopeUser u) \<and>
           profile_page prefix req' =
             Inr (Page ''Profile''
                    (create_profile_form (ScopeUser u) (query_params req ''success'')
                       (query_params req ''error'') (prefix @ ''/profile'')))"
  using assms
  by (auto simp add: access_gate_def profile_page_def Let_def
        split: if_splits option.splits pyval.splits)

theorem authenticated_user_in_scope_witness:
  "access_gate (user_repo example_auth) ''/auth/login'' [''/about'', ''/contact''] [alice]
     (example_request Map.empty) alice_session =
     (AUTHENTICATED, alice_session,
      (example_request Map.empty)\<lparr>scope := [''user'' \<mapsto> ScopeUser alice]\<rparr>, None) \<and>
   profile_page ''/auth'' ((example_request Map.empty)\<lparr>scope := [''user'' \<mapsto> ScopeUser alice]\<rparr>) =
     Inr (Page ''Profile'' (create_profile_form (ScopeUser alice) None None ''/auth/profile''))"
  using authenticated_user_in_scope [of "user_repo example_auth" "''/auth/login''"
          "[''/about'', ''/contact'']" "[alice]" "example_request Map.empty" alice_session
          alice_session "(example_request Map.empty)\<lparr>scope := [''user'' \<mapsto> ScopeUser alice]\<rparr>"
          None "''/auth''"]
  by (simp add: access_gate_def is_public_path_def example_defs)

section \<open>The auth tables (C6)\<close>

text \<open>
  C6: \<open>initialize_auth_tables\<close> is idempotent: a second call returns the state and
  the handle of the first.  The handle is the storage of the resulting state; its tables
  are those of the storage before the call together with the User and the Session table;
  every table that existed before is the same afterwards; the two table references are
  set.
\<close>

theorem initialize_auth_tables_idempotent:
  "initialize_auth_tables User Session (fst (initialize_auth_tables User Session self)) =
     initialize_auth_tables User Session self \<and>
   snd (initialize_auth_tables User Session self) =
     get_db (fst (initialize_auth_tables User Session self)) \<and>
   dom (snd (initialize_auth_tables User Session self)) =
     dom (db self) \<union> {cls_name User, cls_name Session} \<and>
   db self \<subseteq>\<^sub>m snd (initialize_auth_tables User Session self) \<and>
   users (fst (initialize_auth_tables User Session self)) = Some (cls_name User) \<and>
   sessions (fst (initialize_auth_tables User Session self)) = Some (cls_name Session)"
  by (auto simp add: initialize_auth_tables_def db_create_def get_db_def Let_def map_le_def
        split: option.splits prod.splits)

theorem initialize_auth_tables_idempotent_witness:
  "initialize_auth_tables User_class Session_class
     (fst (initialize_auth_tables User_class Session_class fresh_database)) =
     initialize_auth_tables User_class Session_class fresh_database \<and>
   dom (snd (initialize_auth_tables User_class Session_class fresh_database)) =
     {''user'', ''session''} \<and>
   users (fst (initialize_auth_tables User_class Session_class fresh_database)) =
     Some ''user'' \<and>
   sessions (fst (initialize_auth_tables User_class Session_class fresh_database)) =
     Some ''session''"
  using initialize_auth_tables_idempotent [of User_class Session_class fresh_database]
  by (simp add: initialize_auth_tables_def db_create_def User_class_def Session_class_def
        fresh_database_def Let_def)

section \<open>Status codes, registration, logout (C7, C8, C9)\<close>

text \<open>
  C7: every response of \<open>login_submit\<close>, of \<open>logout\<close> and of \<open>register_submit\<close>
  is a redirect with status code 303.
\<close>

theorem redirects_are_303:
  "(\<exists>url. snd (login_submit auth prefix req st) = RedirectResponse url 303) \<and>
   (\<exists>url. snd (logout prefix sess) = RedirectResponse url 303) \<and>
   (\<exists>url. snd (register_submit auth prefix req st) = RedirectResponse url 303)"
  by (simp add: login_submit_def logout_def register_submit_def Let_def
        split: prod.splits option.splits)

text \<open>
  C8: when the password equals its confirmation, the stripped username is free and
  \<open>create\<close> returns the new user, \<open>register_submit\<close> sets the session keys \<open>auth\<close>,
  \<open>user_id\<close> and \<open>role\<close> to the username, the id and the role of the new user and
  redirects (303) to \<open>/\<close>.
\<close>

theorem register_success_auto_login:
  assumes "dict_get (form req) ''password'' [] = dict_get (form req) ''confirm_password'' []"
    and "get_by_username (user_repo auth) store (strip (dict_get (form req) ''username'' [])) = None"
    and "create (user_repo auth) store (strip (dict_get (form req) ''username'' []))
           (strip (dict_get (form req) ''email'' [])) (dict_get (form req) ''password'' []) =
           (store', Some u)"
  shows "register_submit auth prefix req (store, sess) =
           ((store', sess(''auth'' \<mapsto> PStr (username u), ''user_id'' \<mapsto> PInt (uid u),
                          ''role'' \<mapsto> PStr (role u))),
            RedirectResponse ''/'' 303)"
  using assms by (simp add: register_submit_def Let_def)

theorem register_success_auto_login_witness:
  "dict_get (form (example_request
      (register_form '' bob'' ''bob@example.org '' ''hunter22'' ''hunter22''))) ''password'' [] =
   dict_get (form (example_request
      (register_form '' bob'' ''bob@example.org '' ''hunter22'' ''hunter22''))) ''confirm_password'' [] \<and>
   get_by_username (user_repo example_auth) [alice]
     (strip (dict_get (form (example_request
        (register_form '' bob'' ''bob@example.org '' ''hunter22'' ''hunter22''))) ''username'' [])) = None \<and>
   create (user_repo example_auth) [alice] ''bob'' ''bob@example.org'' ''hunter22'' =
     ([alice, bob], Some bob) \<and>
   register_submit example_auth ''/auth''
     (example_request (register_form '' bob'' ''bob@example.org '' ''hunter22'' ''hunter22''))
     ([alice], Map.empty) =
     (([alice, bob], [''auth'' \<mapsto> PStr ''bob'', ''user_id'' \<mapsto> PInt 2, ''role'' \<mapsto> PStr ''user'']),
      RedirectResponse ''/'' 303)"
  using register_success_auto_login [of
          "example_request (register_form '' bob'' ''bob@example.org '' ''hunter22'' ''hunter22'')"
          example_auth "[alice]" "[alice, bob]" bob "''/auth''" Map.empty]
  by (simp add: example_defs strip_examples)

text \<open>
  C9: for every session, \<open>logout\<close> returns the session without any key and a redirect
  (303) to the login page.
\<close>

theorem logout_clears_session:
  "dom (fst (logout prefix sess)) = {} \<and>
   snd (logout prefix sess) = RedirectResponse (prefix @ ''/login'') 303"
  by (simp add: logout_def)

section \<open>Whitespace around the username and the email (C10)\<close>

text \<open>
  C10: \<open>strip\<close> removes only surrounding whitespace and leaves a string that neither
  begins nor ends with whitespace.  Two login submissions that differ only in the
  username, by surrounding whitespace, have the same result, and so have two registration
  submissions that differ only so in the username and the email.  The repository is
  called with the stripped username (and the stripped email) and with the password as
  it was submitted.
\<close>

theorem username_whitespace_insensitive:
  "(\<exists>l r. u1 = l @ strip u1 @ r \<and> list_all isspace l \<and> list_all isspace r) \<and>
   (strip u1 = [] \<or> (\<not> isspace (hd (strip u1)) \<and> \<not> isspace (last (strip u1)))) \<and>
   (strip u1 = strip u2 \<longrightarrow>
      login_submit auth prefix (req\<lparr>form := (form req)(''username'' \<mapsto> u1)\<rparr>) st =
      login_submit auth prefix (req\<lparr>form := (form req)(''username'' \<mapsto> u2)\<rparr>) st) \<and>
   (strip u1 = strip u2 \<and> strip e1 = strip e2 \<longrightarrow>
      register_submit auth prefix
        (req\<lparr>form := (form req)(''username'' \<mapsto> u1, ''email'' \<mapsto> e1)\<rparr>) st =
      register_submit auth prefix
        (req\<lparr>form := (form req)(''username'' \<mapsto> u2, ''email'' \<mapsto> e2)\<rparr>) st) \<and>
   fst (fst (login_submit \<lparr>user_repo = recording_repo, config = cfg\<rparr> prefix req (calls, sess))) =
     calls @ [Call_authenticate (strip (dict_get (form req) ''username'' []))
                (dict_get (form req) ''password'' [])] \<and>
   (dict_get (form req) ''password'' [] = dict_get (form req) ''confirm_password'' [] \<longrightarrow>
    fst (fst (register_submit \<lparr>user_repo = recording_repo, config = cfg\<rparr> prefix req
                (calls, sess))) =
      calls @ [Call_create (strip (dict_get (form req) ''username'' []))
                 (strip (dict_get (form req) ''email'' [])) (dict_get (form req) ''password'' [])])"
proof -
  have "strip u1 = [] \<or> (\<not> isspace (hd (strip u1)) \<and> \<not> isspace (last (strip u1)))"
    using strip_hd [of u1] strip_last [of u1] by blast
  moreover have "\<exists>l r. u1 = l @ strip u1 @ r \<and> list_all isspace l \<and> list_all isspace r"
    by (rule strip_surrounding)
  ultimately show ?thesis
    by (simp add: login_submit_def register_submit_def recording_repo_def dict_get_def Let_def
          split: prod.splits)
qed

theorem username_whitespace_insensitive_witness:
  "strip '' alice '' = strip ''alice'' \<and> strip '' alice '' \<noteq> [] \<and>
   \<not> isspace (hd (strip '' alice '')) \<and> \<not> isspace (last (strip '' alice '')) \<and>
   login_submit example_auth ''/auth''
     ((example_request (login_form [] ''secret123''))
        \<lparr>form := (form (example_request (login_form [] ''secret123'')))
                   (''username'' \<mapsto> '' alice '')\<rparr>)
     ([alice], Map.empty) =
   login_submit example_auth ''/auth''
     ((example_request (login_form [] ''secret123''))
        \<lparr>form := (form (example_request (login_form [] ''secret123'')))
                   (''username'' \<mapsto> ''alice'')\<rparr>)
     ([alice], Map.empty) \<and>
   snd (login_submit example_auth ''/auth'' (example_request (login_form ''alice'' ''secret123''))
          ([alice], Map.empty)) = RedirectResponse ''/'' 303 \<and>
   snd (login_submit example_auth ''/auth'' (example_request (login_form ''alice'' ''secret123 ''))
          ([alice], Map.empty)) = RedirectResponse ''/auth/login?error=invalid'' 303 \<and>
   fst (fst (register_submit \<lparr>user_repo = recording_repo, config = example_config\<rparr> ''/auth''
               (example_request (register_form '' bob'' ''bob@example.org '' '' pw '' '' pw ''))
               ([], Map.empty))) =
     [Call_create ''bob'' ''bob@example.org'' '' pw '']"
  using username_whitespace_insensitive [where ?u1.0 = "'' alice ''" and ?u2.0 = "''alice''"
          and auth = example_auth and prefix = "''/auth''"
          and req = "example_request (login_form [] ''secret123'')"
          and st = "([alice], Map.empty)" and ?e1.0 = "[]" and ?e2.0 = "[]"
          and cfg = example_config and calls = "[]" and sess = Map.empty]
        username_whitespace_insensitive [where ?u1.0 = "[]" and ?u2.0 = "[]"
          and auth = example_auth and prefix = "''/auth''"
          and req = "example_request (register_form '' bob'' ''bob@example.org '' '' pw '' '' pw '')"
          and st = "([alice], Map.empty)" and ?e1.0 = "[]" and ?e2.0 = "[]"
          and cfg = example_config and calls = "[]" and sess = Map.empty]
  by (simp add: example_defs strip_examples login_submit_def isspace_def)

end
